theory Spec2Isabelle
  imports Complex_Main
begin

section \<open>Python values and errors\<close>

text \<open>
  The development embeds the graph risk and cascade-simulation core of the repository:
  \<^verbatim>\<open>backend/core/graph_engine.py\<close>, \<^verbatim>\<open>backend/core/simulation_engine.py\<close>,
  \<^verbatim>\<open>backend/core/risk_calculator.py\<close> and \<^verbatim>\<open>backend/core/mitigation_engine.py\<close>.
  Python floats are modelled as exact reals, Python ints as \<open>int\<close> or \<open>nat\<close> (lengths and
  counters), strings as \<open>string\<close>. Every exception the embedded code can raise is a value of
  \<open>py_error\<close>. \<open>ValidationError\<close> is the error named by the specification; no operation
  of the source raises it.
\<close>

datatype py_error =
    TypeError
  | KeyError
  | ZeroDivisionError
  | IndexError
  | NetworkXError
  | PowerIterationFailedConvergence
  | ValidationError

section \<open>The dependency graph (\<^verbatim>\<open>graph_engine.py\<close>)\<close>

datatype NodeType = VENDOR | SOFTWARE | SERVICE

datatype EdgeType = DEPENDS_ON | INTEGRATES_WITH | SUPPLIES

fun NodeType_value :: "NodeType \<Rightarrow> string" where
  "NodeType_value VENDOR = ''vendor''"
| "NodeType_value SOFTWARE = ''software''"
| "NodeType_value SERVICE = ''service''"

fun EdgeType_value :: "EdgeType \<Rightarrow> string" where
  "EdgeType_value DEPENDS_ON = ''depends_on''"
| "EdgeType_value INTEGRATES_WITH = ''integrates_with''"
| "EdgeType_value SUPPLIES = ''supplies''"

text \<open>
  The open \<^verbatim>\<open>metadata\<close> dictionary of a node is modelled by the keys the embedded code
  reads (\<^verbatim>\<open>name\<close>, \<^verbatim>\<open>category\<close>, \<^verbatim>\<open>lastAudit\<close>, \<^verbatim>\<open>certifications\<close>,
  \<^verbatim>\<open>contractType\<close>); \<open>None\<close> is an absent key. Edge metadata is read by no embedded
  operation and is left out.
\<close>

record node_metadata =
  md_name :: "string option"
  md_category :: "string option"
  md_lastAudit :: "string option"
  md_certifications :: "string list option"
  md_contractType :: "string option"

definition no_metadata :: node_metadata where
  "no_metadata = \<lparr>md_name = None, md_category = None, md_lastAudit = None,
     md_certifications = None, md_contractType = None\<rparr>"

text \<open>The attribute dictionary networkx keeps for a node; a node created implicitly by
  \<^verbatim>\<open>DiGraph.add_edge\<close> has the empty dictionary \<open>empty_attrs\<close>.\<close>

record node_attrs =
  na_node_type :: "string option"
  na_tier :: "int option"
  na_risk_score :: "real option"
  na_criticality_score :: "real option"
  na_meta :: node_metadata

definition empty_attrs :: node_attrs where
  "empty_attrs = \<lparr>na_node_type = None, na_tier = None, na_risk_score = None,
     na_criticality_score = None, na_meta = no_metadata\<rparr>"

text \<open>The attribute dictionary networkx keeps for an edge.\<close>

record edge_attrs =
  ea_edge_type :: string
  ea_dependency_category :: string
  ea_strength :: real
  ea_criticality :: string

text \<open>
  \<^verbatim>\<open>nx.DiGraph\<close>: nodes and edges in insertion order (networkx iterates its dictionaries
  in that order). At most one edge per ordered pair; adding it again updates its attributes
  in place.
\<close>

record DiGraph =
  nx_nodes :: "(string \<times> node_attrs) list"
  nx_edges :: "((string \<times> string) \<times> edge_attrs) list"

definition nx_empty :: DiGraph where
  "nx_empty = \<lparr>nx_nodes = [], nx_edges = []\<rparr>"

definition nodes_of :: "DiGraph \<Rightarrow> string list" where
  "nodes_of G = map fst (nx_nodes G)"

definition has_node :: "DiGraph \<Rightarrow> string \<Rightarrow> bool" where
  "has_node G n = (n \<in> set (nodes_of G))"


definition out_list :: "DiGraph \<Rightarrow> string \<Rightarrow> string list" where
  "out_list G u = map (snd \<circ> fst) (filter (\<lambda>e. fst (fst e) = u) (nx_edges G))"

definition in_degree :: "DiGraph \<Rightarrow> string \<Rightarrow> nat" where
  "in_degree G v = length (filter (\<lambda>e. snd (fst e) = v) (nx_edges G))"

definition out_degree :: "DiGraph \<Rightarrow> string \<Rightarrow> nat" where
  "out_degree G u = length (filter (\<lambda>e. fst (fst e) = u) (nx_edges G))"

definition degree :: "DiGraph \<Rightarrow> string \<Rightarrow> nat" where
  "degree G n = in_degree G n + out_degree G n"

text \<open>\<^verbatim>\<open>G.successors(n)\<close> and, on a directed graph, \<^verbatim>\<open>G.neighbors(n)\<close>: networkx raises
  \<^verbatim>\<open>NetworkXError\<close> when \<open>n\<close> is not a node.\<close>

definition successors :: "DiGraph \<Rightarrow> string \<Rightarrow> py_error + string list" where
  "successors G n = (if has_node G n then Inr (out_list G n) else Inl NetworkXError)"

fun upd_alist :: "'k \<Rightarrow> ('v option \<Rightarrow> 'v) \<Rightarrow> ('k \<times> 'v) list \<Rightarrow> ('k \<times> 'v) list" where
  "upd_alist k f [] = [(k, f None)]"
| "upd_alist k f ((k', v) # ps) =
     (if k' = k then (k, f (Some v)) # ps else (k', v) # upd_alist k f ps)"

definition merge_metadata :: "node_metadata \<Rightarrow> node_metadata \<Rightarrow> node_metadata" where
  "merge_metadata old new = \<lparr>
     md_name = (case md_name new of None \<Rightarrow> md_name old | Some x \<Rightarrow> Some x),
     md_category = (case md_category new of None \<Rightarrow> md_category old | Some x \<Rightarrow> Some x),
     md_lastAudit = (case md_lastAudit new of None \<Rightarrow> md_lastAudit old | Some x \<Rightarrow> Some x),
     md_certifications =
       (case md_certifications new of None \<Rightarrow> md_certifications old | Some x \<Rightarrow> Some x),
     md_contractType =
       (case md_contractType new of None \<Rightarrow> md_contractType old | Some x \<Rightarrow> Some x)\<rparr>"

text \<open>\<^verbatim>\<open>DiGraph.add_node(n, **attr)\<close>: a new node is appended, an existing node has its
  attribute dictionary updated.\<close>

definition nx_add_node ::
  "DiGraph \<Rightarrow> string \<Rightarrow> string \<Rightarrow> int \<Rightarrow> real \<Rightarrow> real \<Rightarrow> node_metadata \<Rightarrow> DiGraph" where
  "nx_add_node G n ty tier risk crit md =
     G\<lparr>nx_nodes := upd_alist n
        (\<lambda>old. \<lparr>na_node_type = Some ty, na_tier = Some tier, na_risk_score = Some risk,
                 na_criticality_score = Some crit,
                 na_meta = merge_metadata
                   (case old of None \<Rightarrow> no_metadata | Some a \<Rightarrow> na_meta a) md\<rparr>)
        (nx_nodes G)\<rparr>"

text \<open>The implicit node creation of \<^verbatim>\<open>DiGraph.add_edge\<close>: a missing endpoint is added
  with an empty attribute dictionary, an existing one is left alone.\<close>

definition nx_touch_node :: "string \<Rightarrow> (string \<times> node_attrs) list \<Rightarrow> (string \<times> node_attrs) list" where
  "nx_touch_node n ns = upd_alist n (\<lambda>old. case old of None \<Rightarrow> empty_attrs | Some a \<Rightarrow> a) ns"

definition nx_add_edge :: "DiGraph \<Rightarrow> string \<Rightarrow> string \<Rightarrow> edge_attrs \<Rightarrow> DiGraph" where
  "nx_add_edge G u v a =
     \<lparr>nx_nodes = nx_touch_node v (nx_touch_node u (nx_nodes G)),
      nx_edges = upd_alist (u, v) (\<lambda>_. a) (nx_edges G)\<rparr>"

text \<open>\<^verbatim>\<open>DiGraph.remove_node(n)\<close>: removes the node and every edge incident to it.\<close>

definition nx_remove_node :: "DiGraph \<Rightarrow> string \<Rightarrow> py_error + DiGraph" where
  "nx_remove_node G n =
     (if has_node G n
      then Inr \<lparr>nx_nodes = filter (\<lambda>p. fst p \<noteq> n) (nx_nodes G),
                nx_edges = filter (\<lambda>e. fst (fst e) \<noteq> n \<and> snd (fst e) \<noteq> n) (nx_edges G)\<rparr>
      else Inl NetworkXError)"

text \<open>The dataclasses \<^verbatim>\<open>NodeFeatures\<close> and \<^verbatim>\<open>EdgeFeatures\<close>. The field
  \<^verbatim>\<open>dependency_depth\<close> of \<^verbatim>\<open>NodeFeatures\<close> (a breadth-first depth computed once by
  \<^verbatim>\<open>add_node\<close>) and the \<^verbatim>\<open>metadata\<close> of \<^verbatim>\<open>EdgeFeatures\<close> are read by no embedded
  operation and are left out.\<close>

record NodeFeatures =
  node_id :: string
  node_type :: NodeType
  tier :: int
  nf_in_degree :: nat
  nf_out_degree :: nat
  risk_score :: real
  criticality_score :: real
  metadata :: node_metadata

record EdgeFeatures =
  source :: string
  target :: string
  edge_type :: EdgeType
  dependency_category :: string
  strength :: real
  criticality :: string

text \<open>\<^verbatim>\<open>SupplyChainGraph\<close>: the networkx graph and the two feature dictionaries.\<close>

record SupplyChainGraph =
  graph :: DiGraph
  node_features :: "string \<rightharpoonup> NodeFeatures"
  edge_features :: "(string \<times> string) \<rightharpoonup> EdgeFeatures"

definition new_graph :: SupplyChainGraph where
  "new_graph = \<lparr>graph = nx_empty, node_features = Map.empty, edge_features = Map.empty\<rparr>"

definition add_node ::
  "SupplyChainGraph \<Rightarrow> string \<Rightarrow> NodeType \<Rightarrow> int \<Rightarrow> real \<Rightarrow> real \<Rightarrow> node_metadata
     \<Rightarrow> SupplyChainGraph" where
  "add_node g n ty t risk crit md =
     (let G = nx_add_node (graph g) n (NodeType_value ty) t risk crit md
      in g\<lparr>graph := G,
            node_features := (node_features g)(n \<mapsto>
              \<lparr>node_id = n, node_type = ty, tier = t,
               nf_in_degree = in_degree G n, nf_out_degree = out_degree G n,
               risk_score = risk, criticality_score = crit, metadata = md\<rparr>)\<rparr>)"

text \<open>
  \<^verbatim>\<open>SupplyChainGraph.add_edge\<close> (lines 94-122). The source has no check that the endpoints
  exist and no \<^verbatim>\<open>raise\<close>: the result is always \<open>Inr\<close>. The sum type only makes that
  statable.
\<close>

definition add_edge ::
  "SupplyChainGraph \<Rightarrow> string \<Rightarrow> string \<Rightarrow> EdgeType \<Rightarrow> string \<Rightarrow> real \<Rightarrow> string
     \<Rightarrow> py_error + SupplyChainGraph" where
  "add_edge g s t ty cat str crit =
     (let G = nx_add_edge (graph g) s t
                \<lparr>ea_edge_type = EdgeType_value ty, ea_dependency_category = cat,
                 ea_strength = str, ea_criticality = crit\<rparr>;
          ef = (edge_features g)((s, t) \<mapsto>
                 \<lparr>source = s, target = t, edge_type = ty, dependency_category = cat,
                  strength = str, criticality = crit\<rparr>);
          nf1 = (case node_features g s of
                   None \<Rightarrow> node_features g
                 | Some f \<Rightarrow> (node_features g)(s \<mapsto> f\<lparr>nf_out_degree := out_degree G s\<rparr>));
          nf2 = (case nf1 t of
                   None \<Rightarrow> nf1
                 | Some f \<Rightarrow> nf1(t \<mapsto> f\<lparr>nf_in_degree := in_degree G t\<rparr>))
      in Inr \<lparr>graph = G, node_features = nf2, edge_features = ef\<rparr>)"

text \<open>Adding an edge with the defaults \<^verbatim>\<open>strength=1.0, criticality="medium"\<close>, for
  building example graphs; \<open>the_graph\<close> reads a result that is known not to be an error.\<close>

definition the_graph :: "py_error + SupplyChainGraph \<Rightarrow> SupplyChainGraph" where
  "the_graph r = (case r of Inr g \<Rightarrow> g | Inl _ \<Rightarrow> new_graph)"


subsection \<open>Library functions\<close>

text \<open>
  The networkx algorithms are library code outside the repository. Their results on a
  graph are taken as parameters: each call either returns its value or raises.
\<close>

record networkx =
  betweenness_centrality :: "DiGraph \<Rightarrow> py_error + (string \<rightharpoonup> real)"
  closeness_centrality :: "DiGraph \<Rightarrow> py_error + (string \<rightharpoonup> real)"
  pagerank :: "DiGraph \<Rightarrow> py_error + (string \<rightharpoonup> real)"
  eigenvector_centrality :: "DiGraph \<Rightarrow> py_error + (string \<rightharpoonup> real)"
  articulation_points :: "DiGraph \<Rightarrow> py_error + string list"
  bridges :: "DiGraph \<Rightarrow> py_error + (string \<times> string) list"
  descendants :: "DiGraph \<Rightarrow> string \<Rightarrow> py_error + string list"

text \<open>
  \<^verbatim>\<open>np.percentile(xs, q)\<close> with numpy's default linear interpolation, for a whole
  percentage \<open>q\<close>: the value at the fractional rank \<open>q / 100 * (n - 1)\<close> of the sorted
  sample. The empty sample is an error (in numpy an \<^verbatim>\<open>IndexError\<close> or a \<^verbatim>\<open>nan\<close>,
  depending on the version; a comparison with \<^verbatim>\<open>nan\<close> is false).
\<close>

definition np_percentile :: "real list \<Rightarrow> nat \<Rightarrow> py_error + real" where
  "np_percentile xs q =
     (if xs = [] then Inl IndexError
      else let a = sort xs;
               r = q * (length xs - 1);
               lo = r div 100;
               hi = min (lo + 1) (length xs - 1)
           in Inr (a ! lo + (real (r mod 100) / 100) * (a ! hi - a ! lo)))"

subsection \<open>Centrality metrics\<close>

record centrality =
  c_betweenness_centrality :: real
  c_closeness_centrality :: real
  c_pagerank :: real
  c_eigenvector_centrality :: real
  c_degree_centrality :: real

definition get_or :: "('k \<rightharpoonup> real) \<Rightarrow> 'k \<Rightarrow> real \<Rightarrow> real" where
  "get_or m k d = (case m k of None \<Rightarrow> d | Some v \<Rightarrow> v)"

text \<open>
  \<^verbatim>\<open>calculate_centrality_metrics\<close> (lines 221-246). One \<^verbatim>\<open>try\<close> block holds the four
  networkx calls, in this order; the bare \<^verbatim>\<open>except\<close> replaces all four dictionaries as
  soon as one call raises. The result dictionary is in node order.
\<close>

definition fallback_sources ::
  "DiGraph \<Rightarrow> (string \<rightharpoonup> real) \<times> (string \<rightharpoonup> real) \<times> (string \<rightharpoonup> real) \<times> (string \<rightharpoonup> real)" where
  "fallback_sources G =
     (let zero = (\<lambda>n. if n \<in> set (nodes_of G) then Some 0 else None)
      in (zero, zero,
          (\<lambda>n. if n \<in> set (nodes_of G) then Some (1 / real (length (nodes_of G))) else None),
          zero))"

definition centrality_sources ::
  "networkx \<Rightarrow> DiGraph
     \<Rightarrow> (string \<rightharpoonup> real) \<times> (string \<rightharpoonup> real) \<times> (string \<rightharpoonup> real) \<times> (string \<rightharpoonup> real)" where
  "centrality_sources nx G =
     (case betweenness_centrality nx G of
        Inr b \<Rightarrow>
          (case closeness_centrality nx G of
             Inr c \<Rightarrow>
               (case pagerank nx G of
                  Inr p \<Rightarrow>
                    (case eigenvector_centrality nx G of
                       Inr e \<Rightarrow> (b, c, p, e)
                     | Inl _ \<Rightarrow> fallback_sources G)
                | Inl _ \<Rightarrow> fallback_sources G)
           | Inl _ \<Rightarrow> fallback_sources G)
      | Inl _ \<Rightarrow> fallback_sources G)"

definition calculate_centrality_metrics ::
  "networkx \<Rightarrow> SupplyChainGraph \<Rightarrow> (string \<times> centrality) list" where
  "calculate_centrality_metrics nx g =
     (let G = graph g; (b, c, p, e) = centrality_sources nx G
      in map (\<lambda>n. (n, \<lparr>c_betweenness_centrality = get_or b n 0,
                         c_closeness_centrality = get_or c n 0,
                         c_pagerank = get_or p n 0,
                         c_eigenvector_centrality = get_or e n 0,
                         c_degree_centrality =
                           real (degree G n) / real (max 1 (length (nodes_of G) - 1))\<rparr>))
           (nodes_of G))"

section \<open>The cascade simulator (\<^verbatim>\<open>simulation_engine.py\<close>)\<close>

subsection \<open>Engine and propagation rules\<close>

text \<open>
  The optional predictor \<^verbatim>\<open>gnn_inference_engine\<close> is external: its method
  \<^verbatim>\<open>predict_cascade_amplification\<close> returns a dictionary or raises.
\<close>

type_synonym gnn_engine = "SupplyChainGraph \<Rightarrow> py_error + (string \<rightharpoonup> real)"

text \<open>The dataclass \<^verbatim>\<open>PropagationRule\<close>; a condition may raise.\<close>

record PropagationRule =
  rule_name :: string
  condition :: "string \<Rightarrow> string \<Rightarrow> SupplyChainGraph \<Rightarrow> py_error + bool"
  probability_modifier :: real
  delay_modifier :: real

text \<open>\<^verbatim>\<open>graph.graph.edges.get((s, t), {}).get('dependency_category')\<close>.\<close>

definition edge_data :: "DiGraph \<Rightarrow> string \<Rightarrow> string \<Rightarrow> edge_attrs option" where
  "edge_data G u v = map_of (nx_edges G) (u, v)"

definition tier_of :: "SupplyChainGraph \<Rightarrow> string \<Rightarrow> int" where
  "tier_of g n = (case node_features g n of None \<Rightarrow> 3 | Some f \<Rightarrow> tier f)"

definition cond_tier_amplification :: "string \<Rightarrow> string \<Rightarrow> SupplyChainGraph \<Rightarrow> py_error + bool" where
  "cond_tier_amplification s t g = Inr (tier_of g s = 1)"

definition cond_category :: "string \<Rightarrow> string \<Rightarrow> string \<Rightarrow> SupplyChainGraph \<Rightarrow> py_error + bool" where
  "cond_category cat s t g =
     Inr (case edge_data (graph g) s t of
            None \<Rightarrow> False
          | Some a \<Rightarrow> ea_dependency_category a = cat)"

definition cond_strong_dependency :: "string \<Rightarrow> string \<Rightarrow> SupplyChainGraph \<Rightarrow> py_error + bool" where
  "cond_strong_dependency s t g =
     Inr ((case edge_features g (s, t) of None \<Rightarrow> 0.5 | Some f \<Rightarrow> strength f) > 0.8)"

text \<open>\<^verbatim>\<open>graph.graph.in_degree(target) > np.percentile([in_degree(n) for n in nodes], 75)\<close>.
  For a target that is no node, \<^verbatim>\<open>in_degree\<close> returns a view and the comparison raises
  \<^verbatim>\<open>TypeError\<close>.\<close>

definition cond_high_indegree :: "string \<Rightarrow> string \<Rightarrow> SupplyChainGraph \<Rightarrow> py_error + bool" where
  "cond_high_indegree s t g =
     (let G = graph g in
      case np_percentile (map (\<lambda>n. real (in_degree G n)) (nodes_of G)) 75 of
        Inl e \<Rightarrow> Inl e
      | Inr p \<Rightarrow> if has_node G t then Inr (real (in_degree G t) > p) else Inl TypeError)"

definition initialize_propagation_rules :: "PropagationRule list" where
  "initialize_propagation_rules =
     [\<lparr>rule_name = ''tier_amplification'', condition = cond_tier_amplification,
       probability_modifier = 1.5, delay_modifier = 0.7\<rparr>,
      \<lparr>rule_name = ''auth_dependency'', condition = cond_category ''authentication'',
       probability_modifier = 2.0, delay_modifier = 0.5\<rparr>,
      \<lparr>rule_name = ''api_integration'', condition = cond_category ''api_call'',
       probability_modifier = 1.3, delay_modifier = 0.8\<rparr>,
      \<lparr>rule_name = ''strong_dependency'', condition = cond_strong_dependency,
       probability_modifier = 1.4, delay_modifier = 0.9\<rparr>,
      \<lparr>rule_name = ''high_indegree_vulnerability'', condition = cond_high_indegree,
       probability_modifier = 1.2, delay_modifier = 1.0\<rparr>]"

text \<open>\<^verbatim>\<open>AdvancedSimulationEngine\<close> with the attributes \<^verbatim>\<open>__init__\<close> sets (lines 67-82).
  The bookkeeping dictionary \<^verbatim>\<open>active_simulations\<close> is written but never read by the
  embedded operations and is left out.\<close>

record engine =
  eng_graph :: SupplyChainGraph
  eng_gnn :: "gnn_engine option"
  base_propagation_probability :: real
  base_propagation_delay :: real
  max_simulation_steps :: nat
  max_simulation_time :: real
  propagation_rules :: "PropagationRule list"

definition init_engine :: "SupplyChainGraph \<Rightarrow> gnn_engine option \<Rightarrow> engine" where
  "init_engine g gnn =
     \<lparr>eng_graph = g, eng_gnn = gnn,
      base_propagation_probability = 0.3, base_propagation_delay = 300,
      max_simulation_steps = 20, max_simulation_time = 10000,
      propagation_rules = initialize_propagation_rules\<rparr>"

subsection \<open>Propagation probability and delay\<close>

text \<open>\<^verbatim>\<open>_calculate_propagation_parameters\<close> (lines 266-304), in the order of the source:
  the base calculation (lines 269-280), the rules (each in its own \<^verbatim>\<open>try\<close>), the
  predictor, the clamp.\<close>

definition edge_strength :: "SupplyChainGraph \<Rightarrow> string \<Rightarrow> string \<Rightarrow> real" where
  "edge_strength g s t =
     (case edge_data (graph g) s t of None \<Rightarrow> 0.5 | Some a \<Rightarrow> ea_strength a)"

definition target_vulnerability :: "SupplyChainGraph \<Rightarrow> string \<Rightarrow> real" where
  "target_vulnerability g t =
     1 - (case node_features g t of None \<Rightarrow> 50 | Some f \<Rightarrow> criticality_score f) / 100"

definition base_calculation :: "engine \<Rightarrow> string \<Rightarrow> string \<Rightarrow> real" where
  "base_calculation eng s t =
     base_propagation_probability eng
       * (edge_strength (eng_graph eng) s t * (1 + target_vulnerability (eng_graph eng) t))"

fun apply_rules ::
  "PropagationRule list \<Rightarrow> string \<Rightarrow> string \<Rightarrow> SupplyChainGraph \<Rightarrow> real \<times> real \<Rightarrow> real \<times> real" where
  "apply_rules [] s t g (p, d) = (p, d)"
| "apply_rules (r # rs) s t g (p, d) =
     (case condition r s t g of
        Inr True \<Rightarrow> apply_rules rs s t g (p * probability_modifier r, d * delay_modifier r)
      | Inr False \<Rightarrow> apply_rules rs s t g (p, d)
      | Inl _ \<Rightarrow> apply_rules rs s t g (p, d))"

definition apply_gnn :: "engine \<Rightarrow> string \<Rightarrow> real \<Rightarrow> real" where
  "apply_gnn eng s p =
     (case eng_gnn eng of
        None \<Rightarrow> p
      | Some predict \<Rightarrow>
          (case predict (eng_graph eng) of
             Inl _ \<Rightarrow> p
           | Inr preds \<Rightarrow> p * (1 + get_or preds s 0.5)))"

definition calculate_propagation_parameters :: "engine \<Rightarrow> string \<Rightarrow> string \<Rightarrow> real \<times> real" where
  "calculate_propagation_parameters eng s t =
     (let (p, d) = apply_rules (propagation_rules eng) s t (eng_graph eng)
                     (base_calculation eng s t, base_propagation_delay eng)
      in (min 1 (max 0 (apply_gnn eng s p)), max 50 d))"

subsection \<open>Example graphs\<close>

definition two_nodes :: SupplyChainGraph where
  "two_nodes = the_graph (add_edge
     (add_node (add_node new_graph ''A'' VENDOR 2 0.2 50 no_metadata)
        ''B'' SOFTWARE 3 0.1 50 no_metadata)
     ''A'' ''B'' DEPENDS_ON ''data_flow'' 0.5 ''medium'')"

definition closeness_AB :: "string \<rightharpoonup> real" where
  "closeness_AB = (\<lambda>n. if n = ''B'' then Some 1 else Some 0)"

text \<open>A library behaviour in which only the eigenvector iteration fails.\<close>

definition nx_eig_fails :: networkx where
  "nx_eig_fails =
     \<lparr>betweenness_centrality = (\<lambda>G. Inr (\<lambda>n. Some 0)),
      closeness_centrality = (\<lambda>G. Inr closeness_AB),
      pagerank = (\<lambda>G. Inr (\<lambda>n. Some (1 / 2))),
      eigenvector_centrality = (\<lambda>G. Inl PowerIterationFailedConvergence),
      articulation_points = (\<lambda>G. Inr []),
      bridges = (\<lambda>G. Inr []),
      descendants = (\<lambda>G n. Inr [])\<rparr>"

text \<open>The base probability in the words of the specification (section 4.3, step 1), for
  comparison with \<open>base_calculation\<close>.\<close>

definition spec_base_probability :: "real \<Rightarrow> real \<Rightarrow> real" where
  "spec_base_probability str crit = str * (1 - crit / 100)"

section \<open>Structural vulnerabilities (\<^verbatim>\<open>graph_engine.py\<close>)\<close>



section \<open>The risk scorer (\<^verbatim>\<open>risk_calculator.py\<close>)\<close>



text \<open>The optional predictor output \<^verbatim>\<open>gnn_predictions\<close>: two dictionaries (an absent
  key is the empty dictionary).\<close>

record gnn_predictions =
  gnn_node_risk_scores :: "string \<rightharpoonup> real"
  gnn_cascade_amplification :: "string \<rightharpoonup> real"


















section \<open>The mitigation engine (\<^verbatim>\<open>mitigation_engine.py\<close>)\<close>


text \<open>Decimal digits of a number, and the format \<^verbatim>\<open>{n:03d}\<close>.\<close>

fun digits :: "nat \<Rightarrow> string" where
  "digits n = (if n < 10 then [char_of (48 + n)]
               else digits (n div 10) @ [char_of (48 + n mod 10)])"

declare digits.simps [simp del]


text \<open>\<^verbatim>\<open>sorted(xs, key=k, reverse=True)\<close> and \<^verbatim>\<open>xs.sort(key=k)\<close>: Python's sort is
  stable, also when reversed. \<^verbatim>\<open>xs[:n]\<close> for a possibly negative \<open>n\<close>.\<close>

definition sorted_reverse :: "('a \<Rightarrow> 'k::linorder) \<Rightarrow> 'a list \<Rightarrow> 'a list" where
  "sorted_reverse k xs = rev (sort_key k (rev xs))"














subsection \<open>Simulation state and environment\<close>

datatype SimulationStatus = PENDING | RUNNING | COMPLETED | FAILED

text \<open>The dictionary \<^verbatim>\<open>step_metrics\<close> and the dataclass \<^verbatim>\<open>SimulationStep\<close>.\<close>

record step_metrics =
  total_compromised :: nat
  m_total_affected :: nat
  propagation_rate :: nat
  network_coverage :: real

record SimulationStep =
  step_number :: nat
  timestamp :: real
  action :: string
  affected_nodes :: "string list"
  new_compromised :: "string list"
  propagation_paths :: "string list list"
  metrics :: step_metrics

text \<open>
  The dictionary \<^verbatim>\<open>simulation_state\<close>. A Python set is modelled by the list of its
  elements in insertion order, without repetition; the order in which Python iterates over
  it is given by the environment (below).
\<close>

record sim_state =
  compromised :: "string list"
  propagating :: "string list"
  affected :: "string list"
  secure :: "string list"
  s_step_number :: nat
  simulation_time :: real
  steps :: "SimulationStep list"

text \<open>
  What the code reads from its environment: the values the global generator
  \<^verbatim>\<open>random.random()\<close> returns, in order, from its seeded state; the order in which the
  interpreter iterates over a set of strings (a function of the set's contents, fixed by
  the process's hash seed); the wall clock \<^verbatim>\<open>int(time.time() * 1000)\<close>.
\<close>

record py_env =
  random_values :: "nat \<Rightarrow> real"
  set_order :: "string list \<Rightarrow> string list"
  clock_ms :: nat

definition set_add :: "string list \<Rightarrow> string \<Rightarrow> string list" where
  "set_add xs x = (if x \<in> set xs then xs else xs @ [x])"

subsection \<open>One propagation step\<close>

text \<open>
  \<^verbatim>\<open>_execute_simulation_step\<close> (lines 208-264). The state is mutated in place, so an
  exception leaves the state as it is at that point: each part returns the state together
  with the error. The number next to the state counts the random values drawn so far.

  Lines 220-233: the targets of one compromised node. The accumulator is the state, the draw
  counter, \<^verbatim>\<open>propagating_nodes\<close> and \<^verbatim>\<open>propagation_paths\<close>.
\<close>

type_synonym step_acc = "sim_state \<times> nat \<times> string list \<times> string list list"

fun try_targets :: "engine \<Rightarrow> py_env \<Rightarrow> string \<Rightarrow> string list \<Rightarrow> step_acc \<Rightarrow> step_acc" where
  "try_targets eng env c [] acc = acc"
| "try_targets eng env c (t # ts) (st, k, pn, pp) =
     (if t \<in> set (secure st)
      then (let (prob, delay) = calculate_propagation_parameters eng c t
            in if random_values env k < prob
               then try_targets eng env c ts
                      (st\<lparr>simulation_time := simulation_time st + delay\<rparr>, k + 1,
                       pn @ [t], pp @ [[c, t]])
               else try_targets eng env c ts (st, k + 1, pn, pp))
      else try_targets eng env c ts (st, k, pn, pp))"

text \<open>Lines 216-233: the loop over the compromised nodes; \<^verbatim>\<open>successors\<close> raises for a
  node that is not in the graph.\<close>

fun propagate_from ::
  "engine \<Rightarrow> py_env \<Rightarrow> string list \<Rightarrow> step_acc \<Rightarrow> py_error option \<times> step_acc" where
  "propagate_from eng env [] acc = (None, acc)"
| "propagate_from eng env (c # cs) acc =
     (case successors (graph (eng_graph eng)) c of
        Inl e \<Rightarrow> (Some e, acc)
      | Inr targets \<Rightarrow> propagate_from eng env cs (try_targets eng env c targets acc))"

text \<open>Lines 236-240: the propagating nodes that are still secure become compromised.\<close>

fun move_propagating :: "string list \<Rightarrow> sim_state \<times> string list \<Rightarrow> sim_state \<times> string list" where
  "move_propagating [] (st, nc) = (st, nc)"
| "move_propagating (n # ns) (st, nc) =
     (if n \<in> set (secure st)
      then move_propagating ns
             (st\<lparr>secure := removeAll n (secure st), compromised := set_add (compromised st) n\<rparr>,
              nc @ [n])
      else move_propagating ns (st, nc))"

text \<open>Lines 243-246: secure neighbours of compromised nodes become affected.\<close>

fun add_affected :: "string list \<Rightarrow> sim_state \<Rightarrow> sim_state" where
  "add_affected [] st = st"
| "add_affected (n # ns) st =
     (if n \<in> set (secure st)
      then add_affected ns (st\<lparr>affected := set_add (affected st) n\<rparr>)
      else add_affected ns st)"

fun update_affected :: "DiGraph \<Rightarrow> string list \<Rightarrow> sim_state \<Rightarrow> py_error option \<times> sim_state" where
  "update_affected G [] st = (None, st)"
| "update_affected G (c # cs) st =
     (case successors G c of
        Inl e \<Rightarrow> (Some e, st)
      | Inr nbrs \<Rightarrow> update_affected G cs (add_affected nbrs st))"

definition execute_simulation_step ::
  "engine \<Rightarrow> py_env \<Rightarrow> sim_state \<times> nat \<Rightarrow> (py_error + SimulationStep) \<times> sim_state \<times> nat" where
  "execute_simulation_step eng env sk =
     (let G = graph (eng_graph eng);
          (st0, k0) = sk;
          (err1, st1, k1, propagating_nodes, paths) =
             propagate_from eng env (set_order env (compromised st0)) (st0, k0, [], [])
      in case err1 of
           Some e \<Rightarrow> (Inl e, st1, k1)
         | None \<Rightarrow>
             (let (st2, new_comp) = move_propagating propagating_nodes (st1, []);
                  (err3, st3) = update_affected G (set_order env (compromised st2)) st2
              in case err3 of
                   Some e \<Rightarrow> (Inl e, st3, k1)
                 | None \<Rightarrow>
                     if length (nodes_of G) = 0 then (Inl ZeroDivisionError, st3, k1)
                     else (Inr \<lparr>step_number = s_step_number st3,
                                timestamp = simulation_time st3,
                                action = ''Propagation step '' @ digits (s_step_number st3),
                                affected_nodes = set_order env (affected st3),
                                new_compromised = new_comp,
                                propagation_paths = paths,
                                metrics = \<lparr>total_compromised = length (compromised st3),
                                   m_total_affected = length (affected st3),
                                   propagation_rate = length new_comp,
                                   network_coverage =
                                     real (length (compromised st3) + length (affected st3))
                                       / real (length (nodes_of G))\<rparr>\<rparr>,
                           st3, k1)))"

subsection \<open>The simulation loop\<close>

text \<open>
  Line 175 reads the step with \<^verbatim>\<open>step_result['new_compromised']\<close> and
  \<^verbatim>\<open>step_result['propagating_nodes']\<close>. \<^verbatim>\<open>step_result\<close> is an instance of the
  dataclass \<^verbatim>\<open>SimulationStep\<close>, which defines no \<^verbatim>\<open>__getitem__\<close>: the subscript
  raises \<^verbatim>\<open>TypeError\<close>, whatever the key. \<open>dataclass_getitem\<close> is that behaviour. The
  loop takes the item access as a parameter, so that its properties can be stated for the
  code as it is and also independently of this access.
\<close>

type_synonym getitem = "SimulationStep \<Rightarrow> string \<Rightarrow> py_error + string list"

definition dataclass_getitem :: getitem where
  "dataclass_getitem step key = Inl TypeError"

text \<open>The condition of line 175, \<^verbatim>\<open>not a and not b\<close>, evaluated left to right.\<close>

definition no_new_propagation :: "getitem \<Rightarrow> SimulationStep \<Rightarrow> py_error + bool" where
  "no_new_propagation gi step =
     (case gi step ''new_compromised'' of
        Inl e \<Rightarrow> Inl e
      | Inr nc \<Rightarrow>
          if nc \<noteq> [] then Inr False
          else (case gi step ''propagating_nodes'' of
                  Inl e \<Rightarrow> Inl e
                | Inr pn \<Rightarrow> Inr (pn = [])))"

text \<open>A step does not change the wave counter; the loop of lines 170-180 therefore ends.\<close>

lemma try_targets_step_number:
  "s_step_number (fst (try_targets eng env c ts acc)) = s_step_number (fst acc)"
  by (induction eng env c ts acc rule: try_targets.induct) (auto simp: Let_def split: prod.splits)

lemma propagate_from_step_number:
  "s_step_number (fst (snd (propagate_from eng env cs acc))) = s_step_number (fst acc)"
  by (induction eng env cs acc rule: propagate_from.induct)
     (auto simp: try_targets_step_number split: sum.splits)

lemma move_propagating_step_number:
  "s_step_number (fst (move_propagating ns a)) = s_step_number (fst a)"
  by (induction ns a rule: move_propagating.induct) auto

lemma add_affected_step_number: "s_step_number (add_affected ns st) = s_step_number st"
  by (induction ns st rule: add_affected.induct) auto

lemma update_affected_step_number:
  "s_step_number (snd (update_affected G cs st)) = s_step_number st"
  by (induction G cs st rule: update_affected.induct)
     (auto simp: add_affected_step_number split: sum.splits)

lemma execute_simulation_step_step_number:
  assumes "execute_simulation_step eng env (st, k) = (r, st', k')"
  shows "s_step_number st' = s_step_number st"
proof -
  obtain err1 st1 k1 pn pp where p1:
    "propagate_from eng env (set_order env (compromised st)) (st, k, [], []) = (err1, st1, k1, pn, pp)"
    by (metis prod_cases5)
  have s1: "s_step_number st1 = s_step_number st"
    using propagate_from_step_number [of eng env "set_order env (compromised st)" "(st, k, [], [])"]
    by (simp add: p1)
  obtain st2 nc where p2: "move_propagating pn (st1, []) = (st2, nc)" by fastforce
  have s2: "s_step_number st2 = s_step_number st1"
    using move_propagating_step_number [of pn "(st1, [])"] by (simp add: p2)
  obtain err3 st3 where p3:
    "update_affected (graph (eng_graph eng)) (set_order env (compromised st2)) st2 = (err3, st3)"
    by fastforce
  have s3: "s_step_number st3 = s_step_number st2"
    using update_affected_step_number
      [of "graph (eng_graph eng)" "set_order env (compromised st2)" st2] by (simp add: p3)
  show ?thesis
    using assms s1 s2 s3
    by (auto simp: execute_simulation_step_def Let_def p1 p2 p3 split: option.splits if_splits)
qed

text \<open>The \<^verbatim>\<open>while\<close> loop of lines 170-180. The result is the exception that ended it, if
  any, with the state and the draw counter at that point.\<close>

function run_steps ::
  "getitem \<Rightarrow> engine \<Rightarrow> py_env \<Rightarrow> sim_state \<times> nat \<Rightarrow> py_error option \<times> sim_state \<times> nat" where
  "run_steps gi eng env (st, k) =
     (if s_step_number st < max_simulation_steps eng
         \<and> simulation_time st < max_simulation_time eng
      then (case execute_simulation_step eng env (st, k) of
              (Inl e, st', k') \<Rightarrow> (Some e, st', k')
            | (Inr step_result, st', k') \<Rightarrow>
                (case no_new_propagation gi step_result of
                   Inl e \<Rightarrow> (Some e, st', k')
                 | Inr True \<Rightarrow> (None, st', k')
                 | Inr False \<Rightarrow>
                     run_steps gi eng env
                       (st'\<lparr>steps := steps st' @ [step_result],
                           s_step_number := s_step_number st' + 1\<rparr>, k')))
      else (None, st, k))"
  by pat_completeness auto
termination
  apply (relation "measure (\<lambda>(gi, eng, env, st, k). max_simulation_steps eng - s_step_number st)")
   apply simp
  apply (auto dest!: sym [of _ "execute_simulation_step _ _ _"] dest!: execute_simulation_step_step_number)
  done

subsection \<open>Final metrics, risk analysis and suggestions\<close>

text \<open>The dictionary \<^verbatim>\<open>final_metrics\<close> of \<^verbatim>\<open>_calculate_final_metrics\<close> (lines 337-381).\<close>

record final_metrics =
  compromise_rate :: real
  impact_rate :: real
  average_propagation_time :: real
  propagation_efficiency :: real
  tier_impact :: "(int \<times> nat) list"
  category_impact :: "(string \<times> nat) list"
  critical_paths :: "string list list"
  critical_path_count :: nat

definition bump :: "'k \<Rightarrow> ('k \<times> nat) list \<Rightarrow> ('k \<times> nat) list" where
  "bump k al = upd_alist k (\<lambda>old. case old of None \<Rightarrow> 1 | Some c \<Rightarrow> c + 1) al"

fun category_impact_loop ::
  "DiGraph \<Rightarrow> string list \<Rightarrow> (string \<times> nat) list \<Rightarrow> py_error + (string \<times> nat) list" where
  "category_impact_loop G [] acc = Inr acc"
| "category_impact_loop G (n # ns) acc =
     (case map_of (nx_nodes G) n of
        None \<Rightarrow> Inl KeyError
      | Some a \<Rightarrow>
          category_impact_loop G ns
            (bump (case md_category (na_meta a) of None \<Rightarrow> ''unknown'' | Some c \<Rightarrow> c) acc))"

definition all_paths :: "sim_state \<Rightarrow> string list list" where
  "all_paths st = concat (map propagation_paths (steps st))"

definition calculate_final_metrics ::
  "engine \<Rightarrow> py_env \<Rightarrow> sim_state \<Rightarrow> py_error + final_metrics" where
  "calculate_final_metrics eng env st =
     (let g = eng_graph eng;
          total_nodes = length (nodes_of (graph g));
          compromised_count = length (compromised st);
          affected_count = length (affected st)
      in if total_nodes = 0 then Inl ZeroDivisionError
         else
           (case category_impact_loop (graph g) (set_order env (compromised st)) [] of
              Inl e \<Rightarrow> Inl e
            | Inr cats \<Rightarrow>
                (let crit = filter (\<lambda>p. length p \<ge> 2 \<and> (tier_of g (hd p) \<le> 2 \<or> tier_of g (last p) \<le> 2))
                              (all_paths st)
                 in Inr \<lparr>compromise_rate = real compromised_count / real total_nodes,
                         impact_rate = real (compromised_count + affected_count) / real total_nodes,
                         average_propagation_time =
                           simulation_time st / real (max 1 (s_step_number st)),
                         propagation_efficiency =
                           real compromised_count / max 1 (simulation_time st / 1000),
                         tier_impact =
                           foldl (\<lambda>acc n. bump (tier_of g n) acc) []
                             (set_order env (compromised st)),
                         category_impact = cats,
                         critical_paths = crit,
                         critical_path_count = length crit\<rparr>)))"

text \<open>\<^verbatim>\<open>_perform_risk_analysis\<close> (lines 383-449). The breadth-first search of lines
  391-402 over the recorded propagation paths: one pass of the two \<^verbatim>\<open>for\<close> loops for the
  node taken from the queue, then the \<^verbatim>\<open>while\<close> loop.\<close>

fun bfs_scan ::
  "string \<Rightarrow> string list list \<Rightarrow> string list \<times> string list \<times> string list
     \<Rightarrow> string list \<times> string list \<times> string list" where
  "bfs_scan cur [] acc = acc"
| "bfs_scan cur (p # ps) (visited, queue, reachable) =
     (if length p \<ge> 2 \<and> hd p = cur \<and> hd (tl p) \<notin> set visited
      then bfs_scan cur ps
             (visited @ [hd (tl p)], queue @ [hd (tl p)], set_add reachable (hd (tl p)))
      else bfs_scan cur ps (visited, queue, reachable))"

definition path_targets :: "string list list \<Rightarrow> string set" where
  "path_targets ps = (\<lambda>p. hd (tl p)) ` {p \<in> set ps. length p \<ge> 2}"

lemma bfs_scan_measure:
  assumes "bfs_scan cur ps (visited, queue, reachable) = (visited', queue', reachable')"
    and "path_targets ps \<subseteq> T" and "finite T"
  shows "length queue' + 2 * card (T - set visited') \<le> length queue + 2 * card (T - set visited)"
  using assms
proof (induction cur ps "(visited, queue, reachable)" arbitrary: visited queue reachable
    rule: bfs_scan.induct)
  case (1 cur)
  then show ?case by simp
next
  case (2 cur p ps visited queue reachable)
  have sub: "path_targets ps \<subseteq> T"
    using "2.prems"(2) by (auto simp: path_targets_def)
  show ?case
  proof (cases "length p \<ge> 2 \<and> hd p = cur \<and> hd (tl p) \<notin> set visited")
    case True
    then have inT: "hd (tl p) \<in> T" using "2.prems"(2) by (auto simp: path_targets_def)
    have mem: "hd (tl p) \<in> T - set visited" using True inT by simp
    have fin: "finite (T - set visited)" using "2.prems"(3) by simp
    have eq: "T - set (visited @ [hd (tl p)]) = (T - set visited) - {hd (tl p)}" by auto
    have c: "card (T - set (visited @ [hd (tl p)])) = card (T - set visited) - 1"
      unfolding eq using mem fin by simp
    have pos: "card (T - set visited) \<ge> 1"
      using mem fin by (metis One_nat_def Suc_leI card_gt_0_iff empty_iff)
    from "2.hyps"(1) [OF True _ sub "2.prems"(3)] "2.prems"(1) True
    have "length queue' + 2 * card (T - set visited')
         \<le> length (queue @ [hd (tl p)]) + 2 * card (T - set (visited @ [hd (tl p)]))"
      by simp
    then show ?thesis using c pos by simp
  next
    case False
    from "2.hyps"(2) [OF False _ sub "2.prems"(3)] "2.prems"(1) False
    show ?thesis by simp
  qed
qed

function bfs :: "string list list \<Rightarrow> string list \<Rightarrow> string list \<Rightarrow> string list \<Rightarrow> string list" where
  "bfs ps [] visited reachable = reachable"
| "bfs ps (cur # queue) visited reachable =
     (case bfs_scan cur ps (visited, queue, reachable) of
        (visited', queue', reachable') \<Rightarrow> bfs ps queue' visited' reachable')"
  by pat_completeness auto
termination
  apply (relation "measure (\<lambda>(ps, queue, visited, reachable).
            length queue + 2 * card (path_targets ps - set visited))")
   apply simp
  apply (auto dest!: sym [of _ "bfs_scan _ _ _"])
  apply (drule bfs_scan_measure [where T = "path_targets _"])
    apply (auto simp: path_targets_def)
  done

record velocity_entry =
  v_step :: nat
  v_timestamp :: real
  velocity :: real
  cumulative_compromised :: nat

record failure_entry =
  f_step :: nat
  f_timestamp :: real
  new_compromised_count :: nat
  f_nodes :: "string list"
  f_paths :: "string list list"

record risk_analysis =
  initial_node_impact :: "(string \<times> nat) list"
  bottleneck_nodes :: "(string \<times> nat) list"
  propagation_velocity :: "velocity_entry list"
  critical_failure_points :: "failure_entry list"

fun velocity_over_time :: "nat \<Rightarrow> SimulationStep list \<Rightarrow> velocity_entry list" where
  "velocity_over_time cumulative [] = []"
| "velocity_over_time cumulative (s # ss) =
     \<lparr>v_step = step_number s, v_timestamp = timestamp s,
      velocity = real (length (new_compromised s)) / max 1 (timestamp s / 1000),
      cumulative_compromised = cumulative + length (new_compromised s)\<rparr>
     # velocity_over_time (cumulative + length (new_compromised s)) ss"

definition perform_risk_analysis :: "sim_state \<Rightarrow> string list \<Rightarrow> risk_analysis" where
  "perform_risk_analysis st initial =
     \<lparr>initial_node_impact =
        foldl (\<lambda>acc n. upd_alist n (\<lambda>_. length (bfs (all_paths st) [n] [n] [])) acc) [] initial,
      bottleneck_nodes =
        take 10 (sorted_reverse snd (foldl (\<lambda>acc n. bump n acc) [] (concat (all_paths st)))),
      propagation_velocity = velocity_over_time (length initial) (steps st),
      critical_failure_points =
        map (\<lambda>s. \<lparr>f_step = step_number s, f_timestamp = timestamp s,
                   new_compromised_count = length (new_compromised s),
                   f_nodes = new_compromised s, f_paths = propagation_paths s\<rparr>)
          (filter (\<lambda>s. length (new_compromised s) > 3) (steps st))\<rparr>"

text \<open>
  \<^verbatim>\<open>_generate_mitigation_suggestions\<close> (lines 451-524). The free-text
  \<^verbatim>\<open>description\<close> of a suggestion is left out. The fifth suggestion reads
  \<^verbatim>\<open>simulation_state.get('final_metrics', {})\<close>; the state dictionary never has that
  key, so its condition is always false. Python's \<^verbatim>\<open>max\<close> returns the first greatest
  element.
\<close>

datatype action_target = Node string | Nodes "string list"

record suggestion =
  sg_type :: string
  sg_priority :: string
  sg_target :: action_target
  estimated_impact_reduction :: real
  sg_implementation_complexity :: string

definition max_by :: "('a \<Rightarrow> 'k::linorder) \<Rightarrow> 'a \<Rightarrow> 'a list \<Rightarrow> 'a" where
  "max_by key x xs = foldl (\<lambda>best y. if key y > key best then y else best) x xs"

definition priority_order :: "string \<Rightarrow> nat" where
  "priority_order p =
     (if p = ''critical'' then 0 else if p = ''high'' then 1
      else if p = ''medium'' then 2 else 3)"

definition generate_mitigation_suggestions ::
  "sim_state \<Rightarrow> risk_analysis \<Rightarrow> py_error + suggestion list" where
  "generate_mitigation_suggestions st ra =
     (case (case initial_node_impact ra of
              [] \<Rightarrow> Inr []
            | x # xs \<Rightarrow>
                (let highest = max_by snd x xs
                 in if length (compromised st) = 0 then Inl ZeroDivisionError
                    else Inr [\<lparr>sg_type = ''isolation'', sg_priority = ''high'',
                               sg_target = Node (fst highest),
                               estimated_impact_reduction =
                                 real (snd highest) / real (length (compromised st)),
                               sg_implementation_complexity = ''medium''\<rparr>])) of
        Inl e \<Rightarrow> Inl e
      | Inr s1 \<Rightarrow>
          (let s2 = (case bottleneck_nodes ra of
                       [] \<Rightarrow> []
                     | top_bottleneck # _ \<Rightarrow>
                         [\<lparr>sg_type = ''hardening'', sg_priority = ''high'',
                           sg_target = Node (fst top_bottleneck),
                           estimated_impact_reduction = 0.3,
                           sg_implementation_complexity = ''medium''\<rparr>]);
               s3 = (case critical_failure_points ra of
                       [] \<Rightarrow> []
                     | x # xs \<Rightarrow>
                         [\<lparr>sg_type = ''redundancy'', sg_priority = ''medium'',
                           sg_target = Nodes (f_nodes (max_by new_compromised_count x xs)),
                           estimated_impact_reduction = 0.4,
                           sg_implementation_complexity = ''high''\<rparr>]);
               s4 = (case propagation_velocity ra of
                       [] \<Rightarrow> []
                     | x # xs \<Rightarrow>
                         if velocity (max_by velocity x xs) > 1
                         then [\<lparr>sg_type = ''monitoring'', sg_priority = ''medium'',
                                 sg_target = Node ''network_wide'',
                                 estimated_impact_reduction = 0.2,
                                 sg_implementation_complexity = ''low''\<rparr>]
                         else [])
           in Inr (sort_key (\<lambda>s. priority_order (sg_priority s)) (s1 @ s2 @ s3 @ s4))))"

subsection \<open>\<^verbatim>\<open>run_simulation\<close>\<close>

text \<open>The dataclass \<^verbatim>\<open>SimulationResult\<close>; \<open>None\<close> in \<open>final_metrics\<close> and
  \<open>r_risk_analysis\<close> is the empty dictionary \<^verbatim>\<open>{}\<close>.\<close>

record SimulationResult =
  simulation_id :: string
  status :: SimulationStatus
  initial_compromised :: "string list"
  final_compromised :: "string list"
  total_affected :: nat
  blast_radius :: int
  cascade_depth :: nat
  propagation_time :: real
  r_steps :: "SimulationStep list"
  r_final_metrics :: "final_metrics option"
  r_risk_analysis :: "risk_analysis option"
  mitigation_suggestions :: "suggestion list"

text \<open>Lines 152-160: the initial state.\<close>

definition initial_state :: "engine \<Rightarrow> string list \<Rightarrow> sim_state" where
  "initial_state eng initial =
     \<lparr>compromised = foldl set_add [] initial,
      propagating = [],
      affected = [],
      secure = filter (\<lambda>n. n \<notin> set initial) (nodes_of (graph (eng_graph eng))),
      s_step_number = 0,
      simulation_time = 0,
      steps = []\<rparr>"

text \<open>\<^verbatim>\<open>_finalize_simulation\<close> (lines 306-335).\<close>

definition finalize_simulation ::
  "engine \<Rightarrow> py_env \<Rightarrow> string \<Rightarrow> sim_state \<Rightarrow> string list \<Rightarrow> py_error + SimulationResult" where
  "finalize_simulation eng env sid st initial =
     (case calculate_final_metrics eng env st of
        Inl e \<Rightarrow> Inl e
      | Inr fm \<Rightarrow>
          (let ra = perform_risk_analysis st initial
           in case generate_mitigation_suggestions st ra of
                Inl e \<Rightarrow> Inl e
              | Inr sugg \<Rightarrow>
                  Inr \<lparr>simulation_id = sid, status = COMPLETED,
                       initial_compromised = initial,
                       final_compromised = set_order env (compromised st),
                       total_affected = length (compromised st) + length (affected st),
                       blast_radius = int (length (compromised st)) - int (length initial),
                       cascade_depth = s_step_number st,
                       propagation_time = simulation_time st,
                       r_steps = steps st,
                       r_final_metrics = Some fm,
                       r_risk_analysis = Some ra,
                       mitigation_suggestions = sugg\<rparr>))"

text \<open>The \<^verbatim>\<open>except\<close> branch of \<^verbatim>\<open>run_simulation\<close> (lines 188-206): the partial result
  built from the state as the exception left it.\<close>

definition failed_result :: "py_env \<Rightarrow> string \<Rightarrow> sim_state \<Rightarrow> string list \<Rightarrow> SimulationResult" where
  "failed_result env sid st initial =
     \<lparr>simulation_id = sid, status = FAILED,
      initial_compromised = initial,
      final_compromised = set_order env (compromised st),
      total_affected = length (compromised st) + length (affected st),
      blast_radius = int (length (compromised st)) - int (length initial),
      cascade_depth = s_step_number st,
      propagation_time = simulation_time st,
      r_steps = steps st,
      r_final_metrics = None,
      r_risk_analysis = None,
      mitigation_suggestions = []\<rparr>"

text \<open>
  \<^verbatim>\<open>run_simulation\<close> (lines 135-206), started with \<open>k\<close> random values already drawn;
  it returns the result and the new draw counter. \<open>run_simulation_with\<close> takes the item
  access of line 175 as a parameter; \<open>run_simulation\<close> is the code as it is.
\<close>

definition run_simulation_with ::
  "getitem \<Rightarrow> engine \<Rightarrow> py_env \<Rightarrow> nat \<Rightarrow> string list \<Rightarrow> string option
     \<Rightarrow> SimulationResult \<times> nat" where
  "run_simulation_with gi eng env k initial sim_id =
     (let sid = (case sim_id of None \<Rightarrow> ''sim_'' @ digits (clock_ms env) | Some s \<Rightarrow> s);
          (err, st, k') = run_steps gi eng env (initial_state eng initial, k)
      in case err of
           Some e \<Rightarrow> (failed_result env sid st initial, k')
         | None \<Rightarrow>
             (case finalize_simulation eng env sid st initial of
                Inl e \<Rightarrow> (failed_result env sid st initial, k')
              | Inr r \<Rightarrow> (r, k')))"

definition run_simulation ::
  "engine \<Rightarrow> py_env \<Rightarrow> nat \<Rightarrow> string list \<Rightarrow> string option \<Rightarrow> SimulationResult \<times> nat" where
  "run_simulation = run_simulation_with dataclass_getitem"

subsection \<open>Mitigation effectiveness\<close>

text \<open>
  \<^verbatim>\<open>simulate_mitigation_effectiveness\<close> and \<^verbatim>\<open>_apply_mitigations\<close> (lines 540-603)
  edit graph objects in place, and the claim about them is a claim about aliasing: graph
  objects live in a store, and a variable of the source holds a reference into it.
  \<^verbatim>\<open>self.graph\<close> is the reference the caller gave to the engine.
\<close>

type_synonym ref = nat

type_synonym store = "ref \<Rightarrow> SupplyChainGraph"

record mitigation_action =
  act_type :: string
  act_target :: action_target

text \<open>Line 586, \<^verbatim>\<open>modified_graph.graph.remove_node(target)\<close>: networkx removes the node
  and its edges; the feature dictionaries are not touched.\<close>

definition isolate :: "SupplyChainGraph \<Rightarrow> string \<Rightarrow> SupplyChainGraph" where
  "isolate g n =
     g\<lparr>graph := \<lparr>nx_nodes = filter (\<lambda>p. fst p \<noteq> n) (nx_nodes (graph g)),
                   nx_edges = filter (\<lambda>e. fst (fst e) \<noteq> n \<and> snd (fst e) \<noteq> n)
                                (nx_edges (graph g))\<rparr>\<rparr>"

text \<open>Lines 591-592: the stored \<^verbatim>\<open>risk_score\<close> attribute is multiplied by 0.3.\<close>

definition harden :: "SupplyChainGraph \<Rightarrow> string \<Rightarrow> SupplyChainGraph" where
  "harden g n =
     g\<lparr>graph := (graph g)\<lparr>nx_nodes :=
          map (\<lambda>(m, a). if m = n
                 then (m, a\<lparr>na_risk_score :=
                        Some ((case na_risk_score a of None \<Rightarrow> 0 | Some r \<Rightarrow> r) * 0.3)\<rparr>)
                 else (m, a))
            (nx_nodes (graph g))\<rparr>\<rparr>"

text \<open>Lines 597-601: \<^verbatim>\<open>node_features[node]\<close> raises \<^verbatim>\<open>KeyError\<close> for a node without
  features.\<close>

fun add_redundancy :: "SupplyChainGraph \<Rightarrow> string list \<Rightarrow> py_error option \<times> SupplyChainGraph" where
  "add_redundancy g [] = (None, g)"
| "add_redundancy g (n # ns) =
     (if has_node (graph g) n
      then (case node_features g n of
              None \<Rightarrow> (Some KeyError, g)
            | Some f \<Rightarrow>
                add_redundancy
                  (g\<lparr>node_features := (node_features g)(n \<mapsto>
                        f\<lparr>criticality_score := min 100 (criticality_score f + 20)\<rparr>)\<rparr>)
                  ns)
      else add_redundancy g ns)"

text \<open>One iteration of the loop of lines 579-601 on the object \<open>modified_graph\<close> refers
  to. \<^verbatim>\<open>target in modified_graph.graph.nodes()\<close> raises \<^verbatim>\<open>TypeError\<close> for a list
  (unhashable) target.\<close>

definition apply_action :: "store \<Rightarrow> ref \<Rightarrow> mitigation_action \<Rightarrow> py_error option \<times> store" where
  "apply_action h modified_graph a =
     (let g = h modified_graph in
      if act_type a = ''isolation'' then
        (case act_target a of
           Nodes _ \<Rightarrow> (Some TypeError, h)
         | Node t \<Rightarrow> if has_node (graph g) t then (None, h(modified_graph := isolate g t))
                     else (None, h))
      else if act_type a = ''hardening'' then
        (case act_target a of
           Nodes _ \<Rightarrow> (Some TypeError, h)
         | Node t \<Rightarrow> if has_node (graph g) t then (None, h(modified_graph := harden g t))
                     else (None, h))
      else if act_type a = ''redundancy'' then
        (case act_target a of
           Node _ \<Rightarrow> (None, h)
         | Nodes ts \<Rightarrow> (case add_redundancy g ts of (err, g') \<Rightarrow> (err, h(modified_graph := g'))))
      else (None, h))"

fun apply_actions :: "store \<Rightarrow> ref \<Rightarrow> mitigation_action list \<Rightarrow> py_error option \<times> store" where
  "apply_actions h r [] = (None, h)"
| "apply_actions h r (a # as) =
     (case apply_action h r a of
        (Some e, h') \<Rightarrow> (Some e, h')
      | (None, h') \<Rightarrow> apply_actions h' r as)"

text \<open>
  \<^verbatim>\<open>_apply_mitigations\<close> (lines 574-603). Line 577, \<^verbatim>\<open>modified_graph = self.graph\<close>,
  copies the reference, not the object: \<open>modified_graph\<close> is \<open>self_graph\<close>. The result is
  the returned reference and the store after the edits.
\<close>

definition apply_mitigations ::
  "store \<Rightarrow> ref \<Rightarrow> mitigation_action list \<Rightarrow> (py_error + ref) \<times> store" where
  "apply_mitigations h self_graph actions =
     (let modified_graph = self_graph
      in case apply_actions h modified_graph actions of
           (Some e, h') \<Rightarrow> (Inl e, h')
         | (None, h') \<Rightarrow> (Inr modified_graph, h'))"

record effectiveness =
  baseline_impact :: nat
  mitigated_impact :: nat
  impact_reduction :: int
  impact_reduction_percentage :: real
  propagation_time_reduction :: real
  baseline_result :: SimulationResult
  mitigated_result :: SimulationResult

text \<open>
  \<^verbatim>\<open>simulate_mitigation_effectiveness\<close> (lines 540-572). The engine \<open>eng\<close> gives the
  attributes other than the graph; \<open>self_graph\<close> is \<^verbatim>\<open>self.graph\<close>. The result is the
  returned dictionary (or the exception of \<^verbatim>\<open>_apply_mitigations\<close>, which is not caught),
  the store and the draw counter after the call; \<^verbatim>\<open>self.graph\<close> is again \<open>self_graph\<close>.
\<close>

definition simulate_mitigation_effectiveness ::
  "engine \<Rightarrow> py_env \<Rightarrow> store \<Rightarrow> ref \<Rightarrow> nat \<Rightarrow> string list \<Rightarrow> mitigation_action list
     \<Rightarrow> (py_error + effectiveness) \<times> store \<times> nat" where
  "simulate_mitigation_effectiveness eng env h self_graph k initial actions =
     (let (baseline, k1) =
            run_simulation (eng\<lparr>eng_graph := h self_graph\<rparr>) env k initial (Some ''baseline'')
      in case apply_mitigations h self_graph actions of
           (Inl e, h') \<Rightarrow> (Inl e, h', k1)
         | (Inr modified_graph, h') \<Rightarrow>
             (let (mitigated, k2) =
                    run_simulation (eng\<lparr>eng_graph := h' modified_graph\<rparr>) env k1 initial
                      (Some ''mitigated'')
              in (Inr \<lparr>baseline_impact = total_affected baseline,
                       mitigated_impact = total_affected mitigated,
                       impact_reduction =
                         int (total_affected baseline) - int (total_affected mitigated),
                       impact_reduction_percentage =
                         (real_of_int (int (total_affected baseline) - int (total_affected mitigated))
                            / real (max 1 (total_affected baseline))) * 100,
                       propagation_time_reduction =
                         propagation_time baseline - propagation_time mitigated,
                       baseline_result = baseline,
                       mitigated_result = mitigated\<rparr>,
                  h', k2)))"

subsection \<open>Example environment\<close>

text \<open>An environment whose generator returns 0 at every draw, whose sets iterate in
  insertion order and whose clock reads 1000, and the same with the clock at 2000. A store
  whose every cell holds the graph \<open>A \<rightarrow> B\<close>.\<close>

definition env0 :: py_env where
  "env0 = \<lparr>random_values = (\<lambda>_. 0), set_order = (\<lambda>xs. xs), clock_ms = 1000\<rparr>"

definition env1 :: py_env where
  "env1 = \<lparr>random_values = (\<lambda>_. 0), set_order = (\<lambda>xs. xs), clock_ms = 2000\<rparr>"

definition store0 :: store where
  "store0 = (\<lambda>_. two_nodes)"

section \<open>Graph model: results\<close>







section \<open>Example graphs: evaluation\<close>

lemma two_nodes_graph:
  "graph two_nodes =
     \<lparr>nx_nodes = [(''A'', \<lparr>na_node_type = Some ''vendor'', na_tier = Some 2,
                      na_risk_score = Some 0.2, na_criticality_score = Some 50,
                      na_meta = no_metadata\<rparr>),
                  (''B'', \<lparr>na_node_type = Some ''software'', na_tier = Some 3,
                      na_risk_score = Some 0.1, na_criticality_score = Some 50,
                      na_meta = no_metadata\<rparr>)],
      nx_edges = [((''A'', ''B''), \<lparr>ea_edge_type = ''depends_on'',
                      ea_dependency_category = ''data_flow'', ea_strength = 0.5,
                      ea_criticality = ''medium''\<rparr>)]\<rparr>"
  by (simp add: two_nodes_def the_graph_def add_edge_def add_node_def new_graph_def nx_empty_def
      nx_add_node_def nx_add_edge_def nx_touch_node_def Let_def merge_metadata_def
      no_metadata_def)


lemma two_nodes_features_B:
  "node_features two_nodes ''B'' =
     Some \<lparr>node_id = ''B'', node_type = SOFTWARE, tier = 3, nf_in_degree = 1, nf_out_degree = 0,
        risk_score = 0.1, criticality_score = 50, metadata = no_metadata\<rparr>"
  by (simp add: two_nodes_def the_graph_def add_edge_def add_node_def new_graph_def nx_empty_def
      nx_add_node_def nx_add_edge_def nx_touch_node_def Let_def in_degree_def out_degree_def)

section \<open>Centrality metrics: results\<close>

lemma centrality_sources_fallback:
  assumes "isl (betweenness_centrality nx G) \<or> isl (closeness_centrality nx G)
           \<or> isl (pagerank nx G) \<or> isl (eigenvector_centrality nx G)"
  shows "centrality_sources nx G = fallback_sources G"
  using assms by (auto simp: centrality_sources_def split: sum.splits)

lemma map_of_node_map:
  "n \<in> set ns \<Longrightarrow> map_of (map (\<lambda>n. (n, f n)) ns) n = Some (f n)"
  by (induction ns) auto

text \<open>
  C7 (as amended). \<^verbatim>\<open>calculate_centrality_metrics\<close> never aborts: it returns one entry
  per node, in node order, whatever the four networkx calls do. When any one of them raises,
  all four metrics are replaced for every node \<^emph>\<open>n\<close>: betweenness, closeness and eigenvector
  centrality by 0, PageRank by \<open>1 / |V|\<close>; degree centrality is reported under its own key
  only.
\<close>

theorem centrality_failure_replaces_all_metrics:
  assumes "isl (betweenness_centrality nx (graph g)) \<or> isl (closeness_centrality nx (graph g))
           \<or> isl (pagerank nx (graph g)) \<or> isl (eigenvector_centrality nx (graph g))"
    and "n \<in> set (nodes_of (graph g))"
  shows "map fst (calculate_centrality_metrics nx g) = nodes_of (graph g)
       \<and> map_of (calculate_centrality_metrics nx g) n =
           Some \<lparr>c_betweenness_centrality = 0, c_closeness_centrality = 0,
                 c_pagerank = 1 / real (length (nodes_of (graph g))),
                 c_eigenvector_centrality = 0,
                 c_degree_centrality = real (degree (graph g) n)
                    / real (max 1 (length (nodes_of (graph g)) - 1))\<rparr>"
proof -
  have src: "centrality_sources nx (graph g) = fallback_sources (graph g)"
    using assms(1) by (rule centrality_sources_fallback)
  have keys: "map fst (calculate_centrality_metrics nx g) = nodes_of (graph g)"
    by (simp add: calculate_centrality_metrics_def Let_def split_beta comp_def)
  have entry: "map_of (calculate_centrality_metrics nx g) n =
           Some \<lparr>c_betweenness_centrality = 0, c_closeness_centrality = 0,
                 c_pagerank = 1 / real (length (nodes_of (graph g))),
                 c_eigenvector_centrality = 0,
                 c_degree_centrality = real (degree (graph g) n)
                    / real (max 1 (length (nodes_of (graph g)) - 1))\<rparr>"
    using assms(2)
    by (simp add: calculate_centrality_metrics_def Let_def src fallback_sources_def
        map_of_node_map get_or_def)
  from keys entry show ?thesis by simp
qed

theorem centrality_failure_replaces_all_metrics_witness:
  "map fst (calculate_centrality_metrics nx_eig_fails two_nodes) = [''A'', ''B'']
   \<and> map_of (calculate_centrality_metrics nx_eig_fails two_nodes) ''B'' =
       Some \<lparr>c_betweenness_centrality = 0, c_closeness_centrality = 0, c_pagerank = 1 / 2,
             c_eigenvector_centrality = 0, c_degree_centrality = 1\<rparr>"
  using centrality_failure_replaces_all_metrics [of nx_eig_fails two_nodes "''B''"]
  by (simp add: nx_eig_fails_def two_nodes_graph nodes_of_def degree_def in_degree_def
      out_degree_def)

text \<open>
  C7 as stated fails. On the graph \<open>A \<rightarrow> B\<close> with a library in which only the eigenvector
  iteration fails, closeness was computed (1 for \<open>B\<close>) but is reported as 0, and the failed
  eigenvector centrality of \<open>A\<close> is reported as 0 although the degree centrality of \<open>A\<close>
  is 1.
\<close>

theorem centrality_single_failure_counterexample:
  "closeness_centrality nx_eig_fails (graph two_nodes) = Inr closeness_AB
   \<and> closeness_AB ''B'' = Some 1
   \<and> calculate_centrality_metrics nx_eig_fails two_nodes =
       [(''A'', \<lparr>c_betweenness_centrality = 0, c_closeness_centrality = 0, c_pagerank = 1 / 2,
                 c_eigenvector_centrality = 0, c_degree_centrality = 1\<rparr>),
        (''B'', \<lparr>c_betweenness_centrality = 0, c_closeness_centrality = 0, c_pagerank = 1 / 2,
                 c_eigenvector_centrality = 0, c_degree_centrality = 1\<rparr>)]"
  by (simp add: calculate_centrality_metrics_def two_nodes_graph centrality_sources_def
      nx_eig_fails_def closeness_AB_def fallback_sources_def nodes_of_def Let_def get_or_def
      degree_def in_degree_def out_degree_def)

section \<open>Propagation parameters: results\<close>

text \<open>
  C5 (as amended). For an edge \<open>s \<rightarrow> t\<close> of the graph whose target has recorded features,
  the base probability that \<^verbatim>\<open>_calculate_propagation_parameters\<close> computes before any
  rule is applied is \<open>0.3 \<times> strength \<times> (2 - criticality_score / 100)\<close>: the engine's
  base probability 0.3 times the edge strength times one plus the target vulnerability.
\<close>

theorem base_calculation_formula:
  assumes "edge_data (graph g) s t = Some a" and "node_features g t = Some f"
  shows "base_calculation (init_engine g gnn) s t
         = 0.3 * (ea_strength a * (2 - criticality_score f / 100))"
  using assms
  by (simp add: base_calculation_def init_engine_def edge_strength_def target_vulnerability_def)

theorem base_calculation_formula_witness:
  "base_calculation (init_engine two_nodes None) ''A'' ''B'' = 0.3 * (0.5 * (2 - 50 / 100))"
proof -
  have e: "edge_data (graph two_nodes) ''A'' ''B'' =
      Some \<lparr>ea_edge_type = ''depends_on'', ea_dependency_category = ''data_flow'',
            ea_strength = 0.5, ea_criticality = ''medium''\<rparr>"
    by (simp add: edge_data_def two_nodes_graph)
  show ?thesis
    using base_calculation_formula [OF e two_nodes_features_B, of None] by simp
qed

text \<open>
  C5 as stated fails: on the edge \<open>A \<rightarrow> B\<close> of strength 0.5 into a target of criticality 50
  the code computes 0.225, the formula of the claim gives 0.25.
\<close>

theorem base_probability_counterexample:
  "edge_strength two_nodes ''A'' ''B'' = 0.5
   \<and> base_calculation (init_engine two_nodes None) ''A'' ''B'' = 0.225
   \<and> spec_base_probability 0.5 50 = 0.25
   \<and> base_calculation (init_engine two_nodes None) ''A'' ''B'' \<noteq> spec_base_probability 0.5 50"
  by (simp add: base_calculation_def init_engine_def edge_strength_def edge_data_def
      target_vulnerability_def two_nodes_graph two_nodes_features_B spec_base_probability_def)

section \<open>Risk scorer: results\<close>



















section \<open>Mitigation engine: results\<close>









end
